theory Spec2Isabelle
  imports Complex_Main
begin

section \<open>Multi-step forms: schemas, step sequences, navigation and submission\<close>

text \<open>
  A shallow embedding of the schemas and of two of the wizards of the playground:
  \<^item> \<^verbatim>\<open>schemas/onboarding.schema.ts\<close>: the domain schema and the company step schema;
  \<^item> \<^verbatim>\<open>MultiStepSingleForm\<close>: one shared form, steps depending on the account type,
    a final full-schema pass in \<^verbatim>\<open>onSubmit\<close>;
  \<^item> \<^verbatim>\<open>ConditionalStepsForm\<close>: steps depending on the attendance type, with the
    render-time clamp of the current step.

  Strings are \<^typ>\<open>string\<close> (the length of a string is its number of characters), a
  JavaScript number that holds a step index is an \<^typ>\<open>int\<close>, and the numeric form value
  \<^verbatim>\<open>teamSize\<close> is a \<^typ>\<open>real\<close> (every finite double is one; the schema only compares it
  with 1 and tests it for truthiness; \<^verbatim>\<open>NaN\<close> and the infinities are left out). An
  optional property is an \<^typ>\<open>'a option\<close>, \<^term>\<open>None\<close> standing for \<^verbatim>\<open>undefined\<close>.
\<close>

subsection \<open>Validation issues\<close>

text \<open>
  An issue of a failed parse: the path of the offending value, the issue code and the
  message. The message is \<^term>\<open>None\<close> where the schema names none and the validation
  library supplies its default text.
\<close>

datatype issue_code = invalid_type | too_small | invalid_string | custom

record 'f ZodIssue =
  path :: "'f list"
  code :: issue_code
  message :: "string option"

definition issue :: "'f \<Rightarrow> issue_code \<Rightarrow> string option \<Rightarrow> 'f ZodIssue" where
  "issue f c m = \<lparr>path = [f], code = c, message = m\<rparr>"

text \<open>\<^verbatim>\<open>z.string().min(n, msg)\<close>: the check of a string's length.\<close>

definition string_min :: "'f \<Rightarrow> nat \<Rightarrow> string \<Rightarrow> string \<Rightarrow> 'f ZodIssue list" where
  "string_min f n msg s = (if length s < n then [issue f too_small (Some msg)] else [])"

text \<open>\<^verbatim>\<open>.regex(re, msg)\<close> and \<^verbatim>\<open>.email(msg)\<close>: the pattern is given as a predicate.\<close>

definition string_regex :: "'f \<Rightarrow> (string \<Rightarrow> bool) \<Rightarrow> string \<Rightarrow> string \<Rightarrow> 'f ZodIssue list" where
  "string_regex f re msg s = (if re s then [] else [issue f invalid_string (Some msg)])"

text \<open>\<^verbatim>\<open>z.number().min(n)\<close> with an optional message.\<close>

definition number_min :: "'f \<Rightarrow> real \<Rightarrow> string option \<Rightarrow> real \<Rightarrow> 'f ZodIssue list" where
  "number_min f n msg x = (if x < n then [issue f too_small msg] else [])"

text \<open>
  A required property that is \<^verbatim>\<open>undefined\<close> fails the type check; \<^verbatim>\<open>.optional()\<close>
  accepts \<^verbatim>\<open>undefined\<close> and otherwise runs the inner schema.
\<close>

definition required :: "'f \<Rightarrow> ('a \<Rightarrow> 'f ZodIssue list) \<Rightarrow> 'a option \<Rightarrow> 'f ZodIssue list" where
  "required f inner v = (case v of None \<Rightarrow> [issue f invalid_type None] | Some x \<Rightarrow> inner x)"

definition optional :: "('a \<Rightarrow> 'f ZodIssue list) \<Rightarrow> 'a option \<Rightarrow> 'f ZodIssue list" where
  "optional inner v = (case v of None \<Rightarrow> [] | Some x \<Rightarrow> inner x)"

subsection \<open>The patterns of the onboarding schema\<close>

definition isUpper :: "char \<Rightarrow> bool" where
  "isUpper c = (65 \<le> (of_char c :: nat) \<and> (of_char c :: nat) \<le> 90)"

definition isDigit :: "char \<Rightarrow> bool" where
  "isDigit c = (48 \<le> (of_char c :: nat) \<and> (of_char c :: nat) \<le> 57)"

text \<open>\<^verbatim>\<open>/[A-Z]/\<close> and \<^verbatim>\<open>/[0-9]/\<close>: some character of the class occurs.\<close>

definition hasUpper :: "string \<Rightarrow> bool" where
  "hasUpper s = list_ex isUpper s"

definition hasDigit :: "string \<Rightarrow> bool" where
  "hasDigit s = list_ex isDigit s"

text \<open>\<^verbatim>\<open>/^\+?[0-9]{10,14}$/\<close>: an optional plus sign, then ten to fourteen digits.\<close>

definition phonePattern :: "string \<Rightarrow> bool" where
  "phonePattern s =
     (let ds = (case s of [] \<Rightarrow> [] | c # cs \<Rightarrow> if c = CHR ''+'' then cs else s)
      in 10 \<le> length ds \<and> length ds \<le> 14 \<and> list_all isDigit ds)"

subsection \<open>The domain schema (\<^verbatim>\<open>onboardingSchema\<close>)\<close>

datatype StepFieldName =
  Email | Password | ConfirmPassword | FirstName | LastName | Phone
  | AccountType | CompanyName | TeamSize | Role

datatype accountType = Personal | Business

record OnboardingData =
  email :: string
  password :: string
  confirmPassword :: string
  firstName :: string
  lastName :: string
  phone :: string
  accountType :: accountType
  companyName :: "string option"
  teamSize :: "real option"
  role :: "string option"

text \<open>
  The last three properties of the shape: \<^verbatim>\<open>z.string().optional()\<close>,
  \<^verbatim>\<open>z.number().min(1).optional()\<close> and \<^verbatim>\<open>z.string().optional()\<close>.
\<close>

definition shape_companyName :: "string option \<Rightarrow> StepFieldName ZodIssue list" where
  "shape_companyName = optional (\<lambda>s. [])"

definition shape_teamSize :: "real option \<Rightarrow> StepFieldName ZodIssue list" where
  "shape_teamSize = optional (number_min TeamSize 1 None)"

definition shape_role :: "string option \<Rightarrow> StepFieldName ZodIssue list" where
  "shape_role = optional (\<lambda>s. [])"

text \<open>
  The object part of the schema: the properties are parsed in the order of the shape and
  each contributes its issues. The email pattern of the validation library is the
  parameter \<open>isEmail\<close>. A value of type \<^typ>\<open>OnboardingData\<close> passes every type check
  (\<^verbatim>\<open>accountType\<close> is one of the two enum members, the strings are strings), so the
  object part reports failed checks only.
\<close>

definition onboardingSchema_object :: "(string \<Rightarrow> bool) \<Rightarrow> OnboardingData \<Rightarrow> StepFieldName ZodIssue list" where
  "onboardingSchema_object isEmail d =
     (string_min Email 1 ''Email is required'' (email d)
        @ string_regex Email isEmail ''Invalid email format'' (email d))
     @ (string_min Password 8 ''Password must be at least 8 characters'' (password d)
        @ string_regex Password hasUpper ''Password must contain at least one uppercase letter'' (password d)
        @ string_regex Password hasDigit ''Password must contain at least one number'' (password d))
     @ string_min ConfirmPassword 1 ''Please confirm your password'' (confirmPassword d)
     @ string_min FirstName 1 ''First name is required'' (firstName d)
     @ string_min LastName 1 ''Last name is required'' (lastName d)
     @ (string_min Phone 1 ''Phone number is required'' (phone d)
        @ string_regex Phone phonePattern ''Invalid phone number format'' (phone d))
     @ shape_companyName (companyName d)
     @ shape_teamSize (teamSize d)
     @ shape_role (role d)"

text \<open>JavaScript truthiness of an optional string and of an optional number.\<close>

definition truthy_string :: "string option \<Rightarrow> bool" where
  "truthy_string v = (case v of None \<Rightarrow> False | Some s \<Rightarrow> s \<noteq> [])"

definition truthy_number :: "real option \<Rightarrow> bool" where
  "truthy_number v = (case v of None \<Rightarrow> False | Some x \<Rightarrow> x \<noteq> 0)"

text \<open>
  The \<^verbatim>\<open>superRefine\<close> callback: the cross-field rule on the passwords, then the rules
  that hold for business accounts only. \<^verbatim>\<open>data.companyName.length === 0\<close> and
  \<^verbatim>\<open>data.teamSize < 1\<close> are evaluated only where the value is truthy.
\<close>

definition onboardingSchema_superRefine :: "OnboardingData \<Rightarrow> StepFieldName ZodIssue list" where
  "onboardingSchema_superRefine d =
     (if password d \<noteq> confirmPassword d
      then [issue ConfirmPassword custom (Some ''Passwords do not match'')] else [])
     @ (if accountType d = Business then
          (if \<not> truthy_string (companyName d) \<or> length (the (companyName d)) = 0
           then [issue CompanyName custom (Some ''Company name is required for business accounts'')]
           else [])
          @ (if \<not> truthy_number (teamSize d) \<or> the (teamSize d) < 1
             then [issue TeamSize custom (Some ''Team size is required for business accounts'')]
             else [])
        else [])"

text \<open>
  \<^verbatim>\<open>onboardingSchema.safeParse(data)\<close>: the issues in evaluation order, the object part
  first and the refinement after it (a failed check leaves the parse running, so the
  refinement is evaluated on every typed record). The parse succeeds iff there is no
  issue.
\<close>

definition onboardingSchema_safeParse :: "(string \<Rightarrow> bool) \<Rightarrow> OnboardingData \<Rightarrow> StepFieldName ZodIssue list" where
  "onboardingSchema_safeParse isEmail d =
     onboardingSchema_object isEmail d @ onboardingSchema_superRefine d"

subsection \<open>Step configurations and \<^verbatim>\<open>Array.prototype.findIndex\<close>\<close>

record ('c, 'f) StepConfig =
  label :: string
  component :: 'c
  fields' :: "'f list"

text \<open>The first index from \<open>k\<close> on whose element satisfies the predicate, or \<open>-1\<close>.\<close>

fun findIndexFrom :: "('a \<Rightarrow> bool) \<Rightarrow> int \<Rightarrow> 'a list \<Rightarrow> int" where
  "findIndexFrom p k [] = - 1"
| "findIndexFrom p k (x # xs) = (if p x then k else findIndexFrom p (k + 1) xs)"

definition findIndex :: "('a \<Rightarrow> bool) \<Rightarrow> 'a list \<Rightarrow> int" where
  "findIndex p xs = findIndexFrom p 0 xs"

text \<open>\<^verbatim>\<open>fields.includes(v)\<close> where \<open>v\<close> may be \<^verbatim>\<open>undefined\<close>.\<close>

definition array_includes :: "'f list \<Rightarrow> 'f option \<Rightarrow> bool" where
  "array_includes fs v = (case v of None \<Rightarrow> False | Some f \<Rightarrow> f \<in> set fs)"

subsection \<open>\<^verbatim>\<open>MultiStepSingleForm\<close>\<close>

datatype onboardingComponent = AccountStep | ProfileStep | AccountTypeStep | CompanyStep

text \<open>The step sequence, recomputed from the watched account type.\<close>

definition MultiStepSingleForm_steps :: "accountType \<Rightarrow> (onboardingComponent, StepFieldName) StepConfig list" where
  "MultiStepSingleForm_steps a =
     (let baseSteps =
        [\<lparr>label = ''Account'', component = AccountStep, fields' = [Email, Password, ConfirmPassword]\<rparr>,
         \<lparr>label = ''Profile'', component = ProfileStep, fields' = [FirstName, LastName, Phone]\<rparr>,
         \<lparr>label = ''Account Type'', component = AccountTypeStep, fields' = [AccountType]\<rparr>]
      in if a = Business
         then baseSteps @ [\<lparr>label = ''Company'', component = CompanyStep,
                            fields' = [CompanyName, TeamSize, Role]\<rparr>]
         else baseSteps)"

text \<open>
  The reply of the submission endpoint: a resolved response, whose \<^verbatim>\<open>data\<close> is the id of
  the new account, or a rejected promise.
\<close>

record ApiResponse =
  success :: bool
  data :: "string option"
  error :: "string option"

datatype api_outcome = Resolved ApiResponse | Rejected

record SubmitResult =
  result_success :: bool
  result_message :: string

text \<open>
  The state of a wizard component: the three \<^verbatim>\<open>useState\<close> cells, the values and the
  displayed errors of the shared form, and two logs that make the effects visible: the
  field lists the form's \<^verbatim>\<open>trigger\<close> was called with and the records the submission
  endpoint was called with. \<^verbatim>\<open>MultiStepSingleForm\<close> also keeps a draft under
  \<^verbatim>\<open>STORAGE_KEY\<close> in \<^verbatim>\<open>localStorage\<close> (\<^term>\<open>None\<close> when the key is absent).
\<close>

record ('v, 'f) wizard_state =
  currentStep :: int
  isSubmitting :: bool
  submitResult :: "SubmitResult option"
  formValues :: 'v
  errors :: "'f \<rightharpoonup> 'f ZodIssue"
  triggerCalls :: "'f list list"
  endpointCalls :: "'v list"

record ('v, 'f) persisted_wizard_state = "('v, 'f) wizard_state" +
  draft :: "'v option"

text \<open>
  The form's \<^verbatim>\<open>trigger(names)\<close> as the components see it: from the names, the current
  values and the displayed errors to the returned flag and the new displayed errors.
\<close>

type_synonym ('v, 'f) trigger_fn =
  "'f list \<Rightarrow> 'v \<Rightarrow> ('f \<rightharpoonup> 'f ZodIssue) \<Rightarrow> bool \<times> ('f \<rightharpoonup> 'f ZodIssue)"

subsection \<open>The handlers shared by both wizards\<close>

text \<open>\<^verbatim>\<open>steps[currentStep]\<close>: \<^verbatim>\<open>undefined\<close> outside the array.\<close>

definition array_get :: "'a list \<Rightarrow> int \<Rightarrow> 'a option" where
  "array_get xs i = (if 0 \<le> i \<and> i < int (length xs) then Some (xs ! nat i) else None)"

definition validateCurrentStep ::
  "('v, 'f) trigger_fn \<Rightarrow> ('c, 'f) StepConfig list
   \<Rightarrow> ('v, 'f, 'z) wizard_state_scheme \<Rightarrow> bool \<times> ('v, 'f, 'z) wizard_state_scheme" where
  "validateCurrentStep trigger steps st =
     (case array_get steps (currentStep st) of
        None \<Rightarrow> (False, st)
      | Some currentStepConfig \<Rightarrow>
          (let (isValid, errs) = trigger (fields' currentStepConfig) (formValues st) (errors st)
           in (isValid, st\<lparr>errors := errs,
                            triggerCalls := triggerCalls st @ [fields' currentStepConfig]\<rparr>)))"

definition handleNext ::
  "('v, 'f) trigger_fn \<Rightarrow> ('c, 'f) StepConfig list
   \<Rightarrow> ('v, 'f, 'z) wizard_state_scheme \<Rightarrow> ('v, 'f, 'z) wizard_state_scheme" where
  "handleNext trigger steps st =
     (let (isValid, st1) = validateCurrentStep trigger steps st
      in if isValid
         then st1\<lparr>currentStep := min (currentStep st1 + 1) (int (length steps) - 1)\<rparr>
         else st1)"

definition handleBack :: "('v, 'f, 'z) wizard_state_scheme \<Rightarrow> ('v, 'f, 'z) wizard_state_scheme" where
  "handleBack st = st\<lparr>currentStep := max (currentStep st - 1) 0\<rparr>"

subsection \<open>\<^verbatim>\<open>MultiStepSingleForm\<close>: submission and reset\<close>

type_synonym onboarding_state = "(OnboardingData, StepFieldName) persisted_wizard_state"

text \<open>\<^verbatim>\<open>result.error.issues[0]?.path[0]\<close>\<close>

definition firstErrorPath :: "'f ZodIssue list \<Rightarrow> 'f option" where
  "firstErrorPath issues =
     (case issues of [] \<Rightarrow> None
      | i # _ \<Rightarrow> (case path i of [] \<Rightarrow> None | f # _ \<Rightarrow> Some f))"

text \<open>\<^verbatim>\<open>response.error || "Something went wrong"\<close>: an absent or empty error is falsy.\<close>

definition failureMessage :: "ApiResponse \<Rightarrow> string" where
  "failureMessage response =
     (if truthy_string (error response) then the (error response) else ''Something went wrong'')"

definition successMessage :: "ApiResponse \<Rightarrow> string" where
  "successMessage response =
     ''Account created successfully! ID: ''
       @ (case data response of None \<Rightarrow> ''undefined'' | Some i \<Rightarrow> i)"

text \<open>
  \<^verbatim>\<open>stepWithError\<close>: the index of the first step that lists the field of the first
  issue, or \<open>-1\<close>.
\<close>

definition stepWithError :: "'f ZodIssue list \<Rightarrow> ('c, 'f) StepConfig list \<Rightarrow> int" where
  "stepWithError issues steps =
     findIndex (\<lambda>step. array_includes (fields' step) (firstErrorPath issues)) steps"

text \<open>
  \<^verbatim>\<open>onSubmit(data)\<close>, with the step sequence of the current render and the endpoint as
  a function from the submitted record to its outcome. The result is the state once the
  handler has run to its end (after the \<^verbatim>\<open>finally\<close> block).
\<close>

definition MultiStepSingleForm_onSubmit ::
  "(string \<Rightarrow> bool) \<Rightarrow> (OnboardingData \<Rightarrow> api_outcome)
   \<Rightarrow> (onboardingComponent, StepFieldName) StepConfig list \<Rightarrow> OnboardingData
   \<Rightarrow> onboarding_state \<Rightarrow> onboarding_state" where
  "MultiStepSingleForm_onSubmit isEmail endpoint steps d st =
     (let issues = onboardingSchema_safeParse isEmail d in
      if issues \<noteq> [] then
        (let i = stepWithError issues steps
         in if i \<noteq> - 1 then st\<lparr>currentStep := i\<rparr> else st)
      else
        (let st1 = st\<lparr>isSubmitting := True, submitResult := None\<rparr>;
             st2 = st1\<lparr>endpointCalls := endpointCalls st1 @ [d]\<rparr>;
             st3 = (case endpoint d of
                      Resolved response \<Rightarrow>
                        if success response
                        then st2\<lparr>draft := None,
                                 submitResult := Some \<lparr>result_success = True,
                                                        result_message = successMessage response\<rparr>\<rparr>
                        else st2\<lparr>submitResult := Some \<lparr>result_success = False,
                                                        result_message = failureMessage response\<rparr>\<rparr>
                    | Rejected \<Rightarrow>
                        st2\<lparr>submitResult := Some \<lparr>result_success = False,
                                                  result_message = ''Network error. Please try again.''\<rparr>\<rparr>)
         in st3\<lparr>isSubmitting := False\<rparr>))"

definition defaultOnboardingValues :: OnboardingData where
  "defaultOnboardingValues =
     \<lparr>email = '''', password = '''', confirmPassword = '''', firstName = '''', lastName = '''',
      phone = '''', accountType = Personal, companyName = Some '''', teamSize = None,
      role = Some ''''\<rparr>"

text \<open>
  \<^verbatim>\<open>savedValues\<close>: the draft found under \<^verbatim>\<open>STORAGE_KEY\<close> is spread over the default
  values, unvalidated. The stored text has no property for a value that was
  \<^verbatim>\<open>undefined\<close> when it was saved, so such a property takes its default. (A stored text
  that does not parse gives the default values; the draft of the model is a parsed record.)
\<close>

definition savedValues :: "OnboardingData option \<Rightarrow> OnboardingData" where
  "savedValues saved =
     (case saved of
        None \<Rightarrow> defaultOnboardingValues
      | Some s \<Rightarrow>
          s\<lparr>companyName := (case companyName s of None \<Rightarrow> companyName defaultOnboardingValues
                             | Some c \<Rightarrow> Some c),
            teamSize := (case teamSize s of None \<Rightarrow> teamSize defaultOnboardingValues
                          | Some t \<Rightarrow> Some t),
            role := (case role s of None \<Rightarrow> role defaultOnboardingValues | Some r \<Rightarrow> Some r)\<rparr>)"

text \<open>The wizard as it is mounted: at step 0, with the saved values in the form.\<close>

definition MultiStepSingleForm_initial :: "OnboardingData option \<Rightarrow> onboarding_state" where
  "MultiStepSingleForm_initial saved =
     \<lparr>currentStep = 0, isSubmitting = False, submitResult = None, formValues = savedValues saved,
      errors = Map.empty, triggerCalls = [], endpointCalls = [], draft = saved\<rparr>"

text \<open>
  \<^verbatim>\<open>handleReset\<close>. The draft is removed first; \<^verbatim>\<open>reset(defaultOnboardingValues)\<close> then
  changes the form values, on which the auto-save subscription of the component writes them
  back under the key, so the draft holds the default values when the handler is done.
\<close>

definition MultiStepSingleForm_handleReset :: "onboarding_state \<Rightarrow> onboarding_state" where
  "MultiStepSingleForm_handleReset st =
     st\<lparr>draft := Some defaultOnboardingValues, formValues := defaultOnboardingValues,
        errors := Map.empty, currentStep := 0, submitResult := None\<rparr>"

text \<open>
  The mock endpoint \<^verbatim>\<open>submitOnboarding\<close>. The value of \<^verbatim>\<open>Math.random()\<close> and the text
  of \<^verbatim>\<open>Date.now()\<close> are arguments; the promise always resolves.
\<close>

definition submitOnboarding :: "real \<Rightarrow> string \<Rightarrow> OnboardingData \<Rightarrow> api_outcome" where
  "submitOnboarding random now d =
     (if random < 0.1
      then Resolved \<lparr>success = False, data = None, error = Some ''Server error. Please try again.''\<rparr>
      else if email d = ''taken@example.com''
      then Resolved \<lparr>success = False, data = None, error = Some ''This email is already registered.''\<rparr>
      else Resolved \<lparr>success = True, data = Some (''user_'' @ now), error = None\<rparr>)"

subsection \<open>The step schema of the company step (\<^verbatim>\<open>companyStepSchema\<close>)\<close>

text \<open>
  The three properties of an input object, each of which may be \<^verbatim>\<open>undefined\<close>: a
  non-empty string, a number of at least 1, a non-empty string.
\<close>

definition companyStepSchema_safeParse ::
  "string option \<Rightarrow> real option \<Rightarrow> string option \<Rightarrow> StepFieldName ZodIssue list" where
  "companyStepSchema_safeParse c t r =
     required CompanyName (string_min CompanyName 1 ''Company name is required'') c
     @ required TeamSize (number_min TeamSize 1 (Some ''Team size must be at least 1'')) t
     @ required Role (string_min Role 1 ''Your role is required'') r"

text \<open>
  The constraints of the domain schema that depend on these three fields only: their
  entries in the shape of \<^verbatim>\<open>onboardingSchema\<close>. The rules of the refinement read
  \<^verbatim>\<open>accountType\<close> and are not among them.
\<close>

definition domainCompanyFields_valid :: "string option \<Rightarrow> real option \<Rightarrow> string option \<Rightarrow> bool" where
  "domainCompanyFields_valid c t r = (shape_companyName c @ shape_teamSize t @ shape_role r = [])"

subsection \<open>\<^verbatim>\<open>ConditionalStepsForm\<close>\<close>

datatype attendanceType = InPerson | Virtual | Hybrid

datatype tshirtSize = Size_xs | Size_s | Size_m | Size_l | Size_xl | Size_xxl

datatype platformPreference = Zoom | Meet | Teams

datatype eventFieldName =
  Ev_name | Ev_email | Ev_attendanceType | Ev_dietaryRestrictions | Ev_tshirtSize
  | Ev_timezone | Ev_platformPreference | Ev_howDidYouHear

record EventRegistrationData =
  name :: string
  email' :: string
  attendanceType :: attendanceType
  dietaryRestrictions :: "string option"
  tshirtSize :: "tshirtSize option"
  timezone :: "string option"
  platformPreference :: "platformPreference option"
  howDidYouHear :: string

datatype eventComponent =
  BasicInfoStep | AttendanceTypeStep | InPersonStep | VirtualStep | AdditionalInfoStep

text \<open>The step sequence, recomputed from the watched attendance type.\<close>

definition ConditionalStepsForm_steps :: "attendanceType \<Rightarrow> (eventComponent, eventFieldName) StepConfig list" where
  "ConditionalStepsForm_steps a =
     (let baseSteps =
        [\<lparr>label = ''Basic Info'', component = BasicInfoStep, fields' = [Ev_name, Ev_email]\<rparr>,
         \<lparr>label = ''Attendance'', component = AttendanceTypeStep, fields' = [Ev_attendanceType]\<rparr>];
          conditional =
        (if a = InPerson then
           [\<lparr>label = ''In-Person'', component = InPersonStep,
             fields' = [Ev_dietaryRestrictions, Ev_tshirtSize]\<rparr>]
         else if a = Virtual then
           [\<lparr>label = ''Virtual'', component = VirtualStep,
             fields' = [Ev_timezone, Ev_platformPreference]\<rparr>]
         else if a = Hybrid then
           [\<lparr>label = ''In-Person'', component = InPersonStep,
             fields' = [Ev_dietaryRestrictions, Ev_tshirtSize]\<rparr>,
            \<lparr>label = ''Virtual'', component = VirtualStep,
             fields' = [Ev_timezone, Ev_platformPreference]\<rparr>]
         else [])
      in baseSteps @ conditional
         @ [\<lparr>label = ''Finish'', component = AdditionalInfoStep, fields' = [Ev_howDidYouHear]\<rparr>])"

type_synonym event_state = "(EventRegistrationData, eventFieldName) wizard_state"

text \<open>
  The adjustment made while rendering: \<^verbatim>\<open>safeCurrentStep\<close> is computed from the steps
  of this render, and the state is written only where it differs.
\<close>

definition safeCurrentStep :: "('c, 'f) StepConfig list \<Rightarrow> int \<Rightarrow> int" where
  "safeCurrentStep steps cur = min cur (int (length steps) - 1)"

definition ConditionalStepsForm_adjust :: "event_state \<Rightarrow> event_state" where
  "ConditionalStepsForm_adjust st =
     (let steps = ConditionalStepsForm_steps (attendanceType (formValues st));
          safe = safeCurrentStep steps (currentStep st)
      in if safe \<noteq> currentStep st then st\<lparr>currentStep := safe\<rparr> else st)"

definition defaultValues :: EventRegistrationData where
  "defaultValues =
     \<lparr>name = '''', email' = '''', attendanceType = InPerson, dietaryRestrictions = Some '''',
      tshirtSize = None, timezone = Some '''', platformPreference = None, howDidYouHear = ''''\<rparr>"

definition ConditionalStepsForm_handleReset :: "event_state \<Rightarrow> event_state" where
  "ConditionalStepsForm_handleReset st =
     st\<lparr>formValues := defaultValues, errors := Map.empty, currentStep := 0, submitResult := None\<rparr>"

definition ConditionalStepsForm_initial :: event_state where
  "ConditionalStepsForm_initial =
     \<lparr>currentStep = 0, isSubmitting = False, submitResult = None, formValues = defaultValues,
      errors = Map.empty, triggerCalls = [], endpointCalls = []\<rparr>"

text \<open>
  What the user can do to the wizard: the three buttons, and a new choice of the
  attendance type, which stores the value in the form. Each handler runs on the steps of
  the last render, and the render that follows makes the adjustment of the current step.
\<close>

datatype wizard_event = NextClicked | BackClicked | ResetClicked | AttendanceChosen attendanceType

definition ConditionalStepsForm_handle ::
  "(EventRegistrationData, eventFieldName) trigger_fn \<Rightarrow> wizard_event \<Rightarrow> event_state \<Rightarrow> event_state" where
  "ConditionalStepsForm_handle trigger ev st =
     (case ev of
        NextClicked \<Rightarrow>
          handleNext trigger (ConditionalStepsForm_steps (attendanceType (formValues st))) st
      | BackClicked \<Rightarrow> handleBack st
      | ResetClicked \<Rightarrow> ConditionalStepsForm_handleReset st
      | AttendanceChosen a \<Rightarrow> st\<lparr>formValues := (formValues st)\<lparr>attendanceType := a\<rparr>\<rparr>)"

definition ConditionalStepsForm_dispatch ::
  "(EventRegistrationData, eventFieldName) trigger_fn \<Rightarrow> event_state \<Rightarrow> wizard_event \<Rightarrow> event_state" where
  "ConditionalStepsForm_dispatch trigger st ev =
     ConditionalStepsForm_adjust (ConditionalStepsForm_handle trigger ev st)"

definition ConditionalStepsForm_run ::
  "(EventRegistrationData, eventFieldName) trigger_fn \<Rightarrow> wizard_event list \<Rightarrow> event_state" where
  "ConditionalStepsForm_run trigger evs =
     foldl (ConditionalStepsForm_dispatch trigger) (ConditionalStepsForm_adjust ConditionalStepsForm_initial) evs"

definition inBounds :: "('c, 'f) StepConfig list \<Rightarrow> int \<Rightarrow> bool" where
  "inBounds steps i = (0 \<le> i \<and> i \<le> int (length steps) - 1)"

subsection \<open>Step validation through the form library\<close>

text \<open>
  The form library and its resolver adapter, whose \<^verbatim>\<open>trigger\<close> the wizards call, are not
  among the sources. The two definitions below follow the spec's \<^verbatim>\<open>requestValidation\<close>:
  it runs the validator on the current values, returns true iff every named field passes,
  and replaces the displayed error of the named fields only. The comments at the call
  sites say the same (\<^verbatim>\<open>trigger(fieldNames)\<close> only validates the specified fields and
  returns true if valid). The touched flags are not part of this model.
\<close>

text \<open>
  Modelled from the spec: the resolver adapter of the form library, not in the sources.
  The error displayed for a field is the first issue of the parse at its path; a field
  without such an issue passes.
\<close>

definition zodResolver :: "'f ZodIssue list \<Rightarrow> ('f \<rightharpoonup> 'f ZodIssue)" where
  "zodResolver issues f = find (\<lambda>i. path i = [f]) issues"

text \<open>
  Modelled from the spec: \<^verbatim>\<open>requestValidation\<close>, the form library's \<^verbatim>\<open>trigger(names)\<close>,
  not in the sources. The flag is true iff every named field passes; the displayed errors
  of the named fields are replaced and those of all other fields are kept.
\<close>

definition requestValidation :: "('v \<Rightarrow> 'f ZodIssue list) \<Rightarrow> ('v, 'f) trigger_fn" where
  "requestValidation schema names values errs =
     (let found = zodResolver (schema values)
      in (list_all (\<lambda>f. found f = None) names,
          (\<lambda>f. if f \<in> set names then found f else errs f)))"

subsection \<open>Submission through the form library\<close>

text \<open>
  Modelled from the spec: the form library's \<^verbatim>\<open>handleSubmit\<close>, not in the sources. The
  wizard does not call \<^verbatim>\<open>onSubmit\<close> itself: the button has
  \<^verbatim>\<open>onClick={handleSubmit(onSubmit)}\<close> and the form has the resolver of the full
  schema. The resolver runs on the form values first. When it finds issues, the field
  errors are recorded (the spec's field validation errors, values for the caller to render)
  and the handler is not called; when it finds none, the handler is called with the values.
\<close>

definition handleSubmit ::
  "('v \<Rightarrow> 'f ZodIssue list)
   \<Rightarrow> ('v \<Rightarrow> ('v, 'f, 'z) wizard_state_scheme \<Rightarrow> ('v, 'f, 'z) wizard_state_scheme)
   \<Rightarrow> ('v, 'f, 'z) wizard_state_scheme \<Rightarrow> ('v, 'f, 'z) wizard_state_scheme" where
  "handleSubmit schema onValid st =
     (let issues = schema (formValues st)
      in if issues \<noteq> [] then st\<lparr>errors := zodResolver issues\<rparr>
         else onValid (formValues st) (st\<lparr>errors := Map.empty\<rparr>))"

text \<open>
  The click on the button of the last step of \<^verbatim>\<open>MultiStepSingleForm\<close>, as it is wired:
  \<^verbatim>\<open>handleSubmit(onSubmit)\<close> with the steps of the current render.
\<close>

definition MultiStepSingleForm_completeClicked ::
  "(string \<Rightarrow> bool) \<Rightarrow> (OnboardingData \<Rightarrow> api_outcome) \<Rightarrow> onboarding_state \<Rightarrow> onboarding_state" where
  "MultiStepSingleForm_completeClicked isEmail endpoint st =
     handleSubmit (onboardingSchema_safeParse isEmail)
       (MultiStepSingleForm_onSubmit isEmail endpoint
          (MultiStepSingleForm_steps (accountType (formValues st)))) st"

subsection \<open>Validation timing\<close>

text \<open>
  The wizards only select the mode \<^verbatim>\<open>onTouched\<close> (``validate on first blur, then on
  change''); the engine that follows the mode belongs to the form library and is not among
  the sources. The model is one field under a timing policy: a change stores the new
  value, a blur marks the field as touched, and the policy says whether the event
  re-validates the field and so replaces the error shown for it.
\<close>

datatype TimingPolicy = onSubmitOnly | onChange | onBlur | onTouchedThenChange | blurAndChange

datatype 'a field_event = Change 'a | Blur

record 'a field_state =
  fieldValue :: 'a
  touched :: bool
  shownError :: "string option"

text \<open>
  Modelled from the spec: the timing policies of the form library's validation engine, not
  in the sources. Under \<^verbatim>\<open>onTouchedThenChange\<close> a field re-validates on every blur, and
  on a change once it has been touched; the other policies follow the table of modes in the
  README.
\<close>

definition revalidates :: "TimingPolicy \<Rightarrow> bool \<Rightarrow> 'a field_event \<Rightarrow> bool" where
  "revalidates policy wasTouched ev =
     (case policy of
        onSubmitOnly \<Rightarrow> False
      | onChange \<Rightarrow> ev \<noteq> Blur
      | onBlur \<Rightarrow> ev = Blur
      | onTouchedThenChange \<Rightarrow> ev = Blur \<or> wasTouched
      | blurAndChange \<Rightarrow> True)"

text \<open>
  Modelled from the spec: the reaction of the form library's validation engine to one
  event of a field, not in the sources.
\<close>

definition fieldEvent ::
  "TimingPolicy \<Rightarrow> ('a \<Rightarrow> string option) \<Rightarrow> 'a field_state \<Rightarrow> 'a field_event \<Rightarrow> 'a field_state" where
  "fieldEvent policy validate fs ev =
     (let fs1 = (case ev of Change v \<Rightarrow> fs\<lparr>fieldValue := v\<rparr> | Blur \<Rightarrow> fs\<lparr>touched := True\<rparr>)
      in if revalidates policy (touched fs) ev
         then fs1\<lparr>shownError := validate (fieldValue fs1)\<rparr>
         else fs1)"

text \<open>
  Modelled from the spec: the reaction of the form library's validation engine to a
  sequence of events of a field, not in the sources.
\<close>

definition fieldEvents ::
  "TimingPolicy \<Rightarrow> ('a \<Rightarrow> string option) \<Rightarrow> 'a field_state \<Rightarrow> 'a field_event list \<Rightarrow> 'a field_state" where
  "fieldEvents policy validate fs evs = foldl (fieldEvent policy validate) fs evs"

subsection \<open>Concrete records and states\<close>

text \<open>
  The instances below use a simple email pattern (some \<open>@\<close> occurs) in the place
  of the library's, and the mock endpoint at a fixed random value and time.
\<close>

definition containsAt :: "string \<Rightarrow> bool" where
  "containsAt s = list_ex (\<lambda>c. c = CHR ''@'') s"

definition adaPersonal :: OnboardingData where
  "adaPersonal =
     \<lparr>email = ''ada@example.com'', password = ''Passw0rdX'', confirmPassword = ''Passw0rdX'',
      firstName = ''Ada'', lastName = ''Lovelace'', phone = ''+12345678901'',
      accountType = Personal, companyName = Some '''', teamSize = None, role = Some ''''\<rparr>"

text \<open>A business account whose company name was left empty.\<close>

definition businessNoCompany :: OnboardingData where
  "businessNoCompany =
     adaPersonal\<lparr>accountType := Business, teamSize := Some 5, role := Some ''founder''\<rparr>"

text \<open>A personal account that still carries a team size of 0.\<close>

definition personalZeroTeam :: OnboardingData where
  "personalZeroTeam = adaPersonal\<lparr>teamSize := Some 0\<rparr>"

definition takenEmail :: OnboardingData where
  "takenEmail = adaPersonal\<lparr>email := ''taken@example.com''\<rparr>"

text \<open>The state in which the record \<open>d\<close> is in the form and in the draft, at step \<open>i\<close>.\<close>

definition onboardingStateAt :: "int \<Rightarrow> OnboardingData \<Rightarrow> onboarding_state" where
  "onboardingStateAt i d =
     \<lparr>currentStep = i, isSubmitting = False, submitResult = None, formValues = d,
      errors = Map.empty, triggerCalls = [], endpointCalls = [], draft = Some d\<rparr>"

text \<open>
  The wizard mounted on a draft that holds \<open>personalZeroTeam\<close>, after two clicks on Next:
  the step validation looks at the fields of the current step only, so the wizard is on
  its last step, Account Type.
\<close>

definition stuckWizard :: onboarding_state where
  "stuckWizard =
     handleNext (requestValidation (onboardingSchema_safeParse containsAt))
       (MultiStepSingleForm_steps Personal)
       (handleNext (requestValidation (onboardingSchema_safeParse containsAt))
          (MultiStepSingleForm_steps Personal)
          (MultiStepSingleForm_initial (Some personalZeroTeam)))"

definition hybridRegistration :: EventRegistrationData where
  "hybridRegistration = defaultValues\<lparr>attendanceType := Hybrid\<rparr>"

text \<open>The conditional wizard at step \<open>i\<close> with the attendance type \<open>a\<close>.\<close>

definition eventStateAt :: "int \<Rightarrow> attendanceType \<Rightarrow> event_state" where
  "eventStateAt i a =
     ConditionalStepsForm_initial\<lparr>currentStep := i, formValues := defaultValues\<lparr>attendanceType := a\<rparr>\<rparr>"

text \<open>A fresh first-name field, and its validator from the domain schema.\<close>

definition freshField :: "string field_state" where
  "freshField = \<lparr>fieldValue = '''', touched = False, shownError = None\<rparr>"

definition firstNameError :: "string \<Rightarrow> string option" where
  "firstNameError s =
     (case string_min FirstName 1 ''First name is required'' s of [] \<Rightarrow> None | i # _ \<Rightarrow> message i)"

text \<open>A \<^verbatim>\<open>trigger\<close> that finds every step valid and leaves the displayed errors alone.\<close>

definition acceptingTrigger :: "(EventRegistrationData, eventFieldName) trigger_fn" where
  "acceptingTrigger names values errs = (True, errs)"

definition mockEndpoint :: "OnboardingData \<Rightarrow> api_outcome" where
  "mockEndpoint = submitOnboarding 0.5 ''1700000000000''"

section \<open>Properties\<close>

subsection \<open>\<^verbatim>\<open>findIndex\<close>\<close>

lemma findIndexFrom_none: "0 \<le> k \<Longrightarrow> (findIndexFrom p k xs = - 1) = (\<forall>x\<in>set xs. \<not> p x)"
  by (induction xs arbitrary: k) auto

lemma findIndexFrom_first:
  "\<exists>x\<in>set xs. p x \<Longrightarrow>
   \<exists>i<length xs. findIndexFrom p k xs = k + int i \<and> p (xs ! i) \<and> (\<forall>j<i. \<not> p (xs ! j))"
proof (induction xs arbitrary: k)
  case Nil
  then show ?case by simp
next
  case (Cons x xs)
  show ?case
  proof (cases "p x")
    case True
    then show ?thesis by (intro exI[of _ 0]) simp
  next
    case False
    with Cons.prems have "\<exists>y\<in>set xs. p y" by simp
    from Cons.IH[OF this, of "k + 1"] obtain i where
      i: "i < length xs" "findIndexFrom p (k + 1) xs = k + 1 + int i" "p (xs ! i)"
         "\<forall>j<i. \<not> p (xs ! j)" by blast
    have "\<forall>j<Suc i. \<not> p ((x # xs) ! j)"
      using False i(4) by (auto simp: less_Suc_eq_0_disj)
    with i False show ?thesis by (intro exI[of _ "Suc i"]) simp
  qed
qed

lemma findIndex_none: "(findIndex p xs = - 1) = (\<forall>x\<in>set xs. \<not> p x)"
  unfolding findIndex_def by (rule findIndexFrom_none) simp

lemma findIndex_first:
  "\<exists>x\<in>set xs. p x \<Longrightarrow>
   \<exists>i<length xs. findIndex p xs = int i \<and> p (xs ! i) \<and> (\<forall>j<i. \<not> p (xs ! j))"
  unfolding findIndex_def using findIndexFrom_first[of xs p 0] by simp

subsection \<open>The two branches of \<^verbatim>\<open>onSubmit\<close>\<close>

lemma onSubmit_invalid:
  assumes "onboardingSchema_safeParse isEmail d \<noteq> []"
  shows "MultiStepSingleForm_onSubmit isEmail endpoint steps d st =
     (let i = findIndex (\<lambda>step. array_includes (fields' step)
                 (firstErrorPath (onboardingSchema_safeParse isEmail d))) steps
      in if i \<noteq> - 1 then st\<lparr>currentStep := i\<rparr> else st)"
  using assms by (simp add: MultiStepSingleForm_onSubmit_def stepWithError_def Let_def)

lemma onSubmit_valid:
  assumes "onboardingSchema_safeParse isEmail d = []"
  shows "MultiStepSingleForm_onSubmit isEmail endpoint steps d st =
     (case endpoint d of
        Resolved response \<Rightarrow>
          if success response
          then st\<lparr>isSubmitting := False, endpointCalls := endpointCalls st @ [d], draft := None,
                  submitResult := Some \<lparr>result_success = True, result_message = successMessage response\<rparr>\<rparr>
          else st\<lparr>isSubmitting := False, endpointCalls := endpointCalls st @ [d],
                  submitResult := Some \<lparr>result_success = False, result_message = failureMessage response\<rparr>\<rparr>
      | Rejected \<Rightarrow>
          st\<lparr>isSubmitting := False, endpointCalls := endpointCalls st @ [d],
             submitResult := Some \<lparr>result_success = False,
                                    result_message = ''Network error. Please try again.''\<rparr>\<rparr>)"
  using assms by (simp add: MultiStepSingleForm_onSubmit_def Let_def split: api_outcome.splits)

subsection \<open>Submission of an invalid record\<close>

lemma safeParse_only_company:
  assumes "accountType d = Business" "\<not> truthy_string (companyName d)"
    "onboardingSchema_object isEmail d = []" "password d = confirmPassword d"
    "teamSize d = Some n" "1 \<le> n"
  shows "onboardingSchema_safeParse isEmail d =
           [issue CompanyName custom (Some ''Company name is required for business accounts'')]"
  using assms
  by (simp add: onboardingSchema_safeParse_def onboardingSchema_superRefine_def truthy_number_def)

lemma steps_Business_findIndex_company:
  "findIndex (\<lambda>step. array_includes (fields' step) (Some CompanyName)) (MultiStepSingleForm_steps Business) = 3"
  by (simp add: findIndex_def MultiStepSingleForm_steps_def array_includes_def)

text \<open>
  C1. When the full schema rejects the submitted record and some step of the current
  sequence lists the field of the first issue, \<^verbatim>\<open>onSubmit\<close> sets the current step to the
  first such step, changes nothing else and does not call the endpoint. In particular, for
  a business account whose company name is empty while every other field is valid, the
  first issue is at \<^verbatim>\<open>companyName\<close> and the current step becomes 3, the Company step.
\<close>

theorem onSubmit_invalid_navigates_to_owner:
  "(onboardingSchema_safeParse isEmail d \<noteq> []
      \<and> (\<exists>step\<in>set steps. array_includes (fields' step)
             (firstErrorPath (onboardingSchema_safeParse isEmail d)))
     \<longrightarrow> (\<exists>i<length steps.
            MultiStepSingleForm_onSubmit isEmail endpoint steps d st = st\<lparr>currentStep := int i\<rparr>
          \<and> array_includes (fields' (steps ! i)) (firstErrorPath (onboardingSchema_safeParse isEmail d))
          \<and> (\<forall>j<i. \<not> array_includes (fields' (steps ! j))
                        (firstErrorPath (onboardingSchema_safeParse isEmail d)))
          \<and> endpointCalls (MultiStepSingleForm_onSubmit isEmail endpoint steps d st) = endpointCalls st))
   \<and> (accountType d = Business \<and> \<not> truthy_string (companyName d)
      \<and> onboardingSchema_object isEmail d = [] \<and> password d = confirmPassword d
      \<and> (\<exists>n. teamSize d = Some n \<and> 1 \<le> n)
     \<longrightarrow> firstErrorPath (onboardingSchema_safeParse isEmail d) = Some CompanyName
       \<and> MultiStepSingleForm_onSubmit isEmail endpoint (MultiStepSingleForm_steps (accountType d)) d st
           = st\<lparr>currentStep := 3\<rparr>
       \<and> map label (MultiStepSingleForm_steps (accountType d)) ! 3 = ''Company''
       \<and> endpointCalls (MultiStepSingleForm_onSubmit isEmail endpoint
             (MultiStepSingleForm_steps (accountType d)) d st) = endpointCalls st)"
proof (intro conjI impI)
  let ?fp = "firstErrorPath (onboardingSchema_safeParse isEmail d)"
  let ?owns = "\<lambda>step. array_includes (fields' step) ?fp"
  assume h: "onboardingSchema_safeParse isEmail d \<noteq> [] \<and> (\<exists>step\<in>set steps. ?owns step)"
  then obtain i where i: "i < length steps" "findIndex ?owns steps = int i" "?owns (steps ! i)"
      "\<forall>j<i. \<not> ?owns (steps ! j)"
    using findIndex_first[of steps ?owns] by blast
  have "MultiStepSingleForm_onSubmit isEmail endpoint steps d st = st\<lparr>currentStep := int i\<rparr>"
    using h i(2) by (simp add: onSubmit_invalid)
  with i show "\<exists>i<length steps.
            MultiStepSingleForm_onSubmit isEmail endpoint steps d st = st\<lparr>currentStep := int i\<rparr>
          \<and> ?owns (steps ! i) \<and> (\<forall>j<i. \<not> ?owns (steps ! j))
          \<and> endpointCalls (MultiStepSingleForm_onSubmit isEmail endpoint steps d st) = endpointCalls st"
    by (intro exI[of _ i]) simp
next
  assume h: "accountType d = Business \<and> \<not> truthy_string (companyName d)
      \<and> onboardingSchema_object isEmail d = [] \<and> password d = confirmPassword d
      \<and> (\<exists>n. teamSize d = Some n \<and> 1 \<le> n)"
  then obtain n where n: "teamSize d = Some n" "1 \<le> n" by blast
  have sp: "onboardingSchema_safeParse isEmail d =
           [issue CompanyName custom (Some ''Company name is required for business accounts'')]"
    using h n by (intro safeParse_only_company) auto
  show fp: "firstErrorPath (onboardingSchema_safeParse isEmail d) = Some CompanyName"
    by (simp add: sp firstErrorPath_def issue_def)
  have B: "accountType d = Business" using h by simp
  show os: "MultiStepSingleForm_onSubmit isEmail endpoint (MultiStepSingleForm_steps (accountType d)) d st
           = st\<lparr>currentStep := 3\<rparr>"
    using fp sp by (simp add: onSubmit_invalid B steps_Business_findIndex_company)
  show "map label (MultiStepSingleForm_steps (accountType d)) ! 3 = ''Company''"
    by (simp add: B MultiStepSingleForm_steps_def)
  show "endpointCalls (MultiStepSingleForm_onSubmit isEmail endpoint
             (MultiStepSingleForm_steps (accountType d)) d st) = endpointCalls st"
    by (simp add: os)
qed

theorem onSubmit_invalid_navigates_to_owner_witness:
  "onboardingSchema_safeParse containsAt businessNoCompany \<noteq> []
   \<and> (\<exists>step\<in>set (MultiStepSingleForm_steps Business). array_includes (fields' step)
          (firstErrorPath (onboardingSchema_safeParse containsAt businessNoCompany)))
   \<and> accountType businessNoCompany = Business \<and> \<not> truthy_string (companyName businessNoCompany)
   \<and> onboardingSchema_object containsAt businessNoCompany = []
   \<and> password businessNoCompany = confirmPassword businessNoCompany
   \<and> (\<exists>n. teamSize businessNoCompany = Some n \<and> 1 \<le> n)
   \<and> MultiStepSingleForm_onSubmit containsAt mockEndpoint (MultiStepSingleForm_steps Business)
        businessNoCompany (onboardingStateAt 3 businessNoCompany)
       = (onboardingStateAt 3 businessNoCompany)\<lparr>currentStep := 3\<rparr>"
proof -
  have a: "accountType businessNoCompany = Business" by code_simp
  have b: "\<not> truthy_string (companyName businessNoCompany)" by code_simp
  have c: "onboardingSchema_object containsAt businessNoCompany = []" by code_simp
  have d: "password businessNoCompany = confirmPassword businessNoCompany" by code_simp
  have e: "\<exists>n. teamSize businessNoCompany = Some n \<and> 1 \<le> n"
    by (simp add: businessNoCompany_def adaPersonal_def)
  have f: "onboardingSchema_safeParse containsAt businessNoCompany \<noteq> []" by code_simp
  have g: "\<exists>step\<in>set (MultiStepSingleForm_steps Business). array_includes (fields' step)
          (firstErrorPath (onboardingSchema_safeParse containsAt businessNoCompany))"
    by code_simp
  show ?thesis
    using a b c d e f g
      onSubmit_invalid_navigates_to_owner[of containsAt businessNoCompany
        "MultiStepSingleForm_steps Business" mockEndpoint "onboardingStateAt 3 businessNoCompany"]
    by simp
qed

lemma handleSubmit_invalid:
  assumes "schema (formValues st) \<noteq> []"
  shows "handleSubmit schema onValid st = st\<lparr>errors := zodResolver (schema (formValues st))\<rparr>"
  using assms by (simp add: handleSubmit_def)

lemma stuckWizard_facts:
  "formValues stuckWizard = personalZeroTeam \<and> currentStep stuckWizard = 2
   \<and> submitResult stuckWizard = None \<and> endpointCalls stuckWizard = []
   \<and> isSubmitting stuckWizard = False"
  by code_simp

text \<open>
  The personal sequence has no step for \<^verbatim>\<open>teamSize\<close>, yet the object part of the
  schema checks the value whenever it is present. Take a wizard mounted on a draft of a
  personal account with a team size of 0 and brought to its last step. The only issue of
  the full schema is at \<^verbatim>\<open>teamSize\<close>, which no step of the sequence lists. The click on
  the button, as it is wired, records the ordinary field error for \<^verbatim>\<open>teamSize\<close> and
  nothing else: the step is still 2, there is no submit result and no call of the
  endpoint. \<^verbatim>\<open>onSubmit\<close> called on this record records no result either. No Stuck error
  is surfaced.
\<close>

theorem onSubmit_unowned_issue_counterexample:
  "formValues stuckWizard = personalZeroTeam
   \<and> currentStep stuckWizard = 2
   \<and> onboardingSchema_safeParse containsAt personalZeroTeam = [issue TeamSize too_small None]
   \<and> firstErrorPath (onboardingSchema_safeParse containsAt personalZeroTeam) = Some TeamSize
   \<and> stepWithError (onboardingSchema_safeParse containsAt personalZeroTeam)
        (MultiStepSingleForm_steps (accountType personalZeroTeam)) = - 1
   \<and> currentStep (MultiStepSingleForm_completeClicked containsAt mockEndpoint stuckWizard) = 2
   \<and> submitResult (MultiStepSingleForm_completeClicked containsAt mockEndpoint stuckWizard) = None
   \<and> endpointCalls (MultiStepSingleForm_completeClicked containsAt mockEndpoint stuckWizard) = []
   \<and> errors (MultiStepSingleForm_completeClicked containsAt mockEndpoint stuckWizard) TeamSize
       = Some (issue TeamSize too_small None)
   \<and> currentStep (MultiStepSingleForm_onSubmit containsAt mockEndpoint
        (MultiStepSingleForm_steps (accountType personalZeroTeam)) personalZeroTeam stuckWizard) = 2
   \<and> submitResult (MultiStepSingleForm_onSubmit containsAt mockEndpoint
        (MultiStepSingleForm_steps (accountType personalZeroTeam)) personalZeroTeam stuckWizard) = None
   \<and> endpointCalls (MultiStepSingleForm_onSubmit containsAt mockEndpoint
        (MultiStepSingleForm_steps (accountType personalZeroTeam)) personalZeroTeam stuckWizard) = []"
proof -
  have a: "onboardingSchema_safeParse containsAt personalZeroTeam = [issue TeamSize too_small None]"
    by code_simp
  have b: "accountType personalZeroTeam = Personal" by code_simp
  have c: "stepWithError [issue TeamSize too_small None] (MultiStepSingleForm_steps Personal) = - 1"
    by (simp add: stepWithError_def findIndex_def MultiStepSingleForm_steps_def array_includes_def
        firstErrorPath_def issue_def)
  have d: "firstErrorPath [issue TeamSize too_small None] = Some TeamSize"
    by (simp add: firstErrorPath_def issue_def)
  have e: "MultiStepSingleForm_completeClicked containsAt mockEndpoint stuckWizard
        = stuckWizard\<lparr>errors := zodResolver [issue TeamSize too_small None]\<rparr>"
    using stuckWizard_facts
    by (simp add: MultiStepSingleForm_completeClicked_def handleSubmit_invalid a)
  have f: "zodResolver [issue TeamSize too_small None] TeamSize = Some (issue TeamSize too_small None)"
    by (simp add: zodResolver_def issue_def)
  have g: "MultiStepSingleForm_onSubmit containsAt mockEndpoint (MultiStepSingleForm_steps Personal)
        personalZeroTeam stuckWizard = stuckWizard"
    by (simp add: MultiStepSingleForm_onSubmit_def a c)
  show ?thesis
    using stuckWizard_facts by (simp add: a b c d e f g)
qed

text \<open>
  C2, as the code has it. When the full schema rejects the submitted record and no step
  of the current sequence lists the field of the first issue, no Stuck error is surfaced
  (the code has none) and the wizard does not navigate. \<^verbatim>\<open>onSubmit\<close> leaves the current
  step, the submit result and the submitting flag as they were and does not call the
  endpoint. The click as it is wired, with that record in the form, does not reach
  \<^verbatim>\<open>onSubmit\<close>: it records the ordinary field errors of the record and changes nothing
  else.
\<close>

theorem onSubmit_unowned_issue_no_stuck_error:
  assumes "onboardingSchema_safeParse isEmail d \<noteq> []"
    and "\<forall>step\<in>set steps. \<not> array_includes (fields' step)
            (firstErrorPath (onboardingSchema_safeParse isEmail d))"
  shows "currentStep (MultiStepSingleForm_onSubmit isEmail endpoint steps d st) = currentStep st
       \<and> submitResult (MultiStepSingleForm_onSubmit isEmail endpoint steps d st) = submitResult st
       \<and> isSubmitting (MultiStepSingleForm_onSubmit isEmail endpoint steps d st) = isSubmitting st
       \<and> endpointCalls (MultiStepSingleForm_onSubmit isEmail endpoint steps d st) = endpointCalls st
       \<and> (formValues st = d \<longrightarrow>
            MultiStepSingleForm_completeClicked isEmail endpoint st
              = st\<lparr>errors := zodResolver (onboardingSchema_safeParse isEmail d)\<rparr>)"
proof -
  have "findIndex (\<lambda>step. array_includes (fields' step)
            (firstErrorPath (onboardingSchema_safeParse isEmail d))) steps = - 1"
    using assms(2) by (simp add: findIndex_none)
  with assms(1) have "MultiStepSingleForm_onSubmit isEmail endpoint steps d st = st"
    by (simp add: onSubmit_invalid)
  moreover have "formValues st = d \<longrightarrow>
            MultiStepSingleForm_completeClicked isEmail endpoint st
              = st\<lparr>errors := zodResolver (onboardingSchema_safeParse isEmail d)\<rparr>"
    using assms(1) by (auto simp: MultiStepSingleForm_completeClicked_def handleSubmit_invalid)
  ultimately show ?thesis by simp
qed

theorem onSubmit_unowned_issue_no_stuck_error_witness:
  "onboardingSchema_safeParse containsAt personalZeroTeam \<noteq> []
   \<and> \<not> (\<exists>step\<in>set (MultiStepSingleForm_steps Personal). array_includes (fields' step)
            (firstErrorPath (onboardingSchema_safeParse containsAt personalZeroTeam)))
   \<and> formValues stuckWizard = personalZeroTeam
   \<and> currentStep (MultiStepSingleForm_onSubmit containsAt mockEndpoint (MultiStepSingleForm_steps Personal)
        personalZeroTeam stuckWizard) = 2
   \<and> submitResult (MultiStepSingleForm_onSubmit containsAt mockEndpoint (MultiStepSingleForm_steps Personal)
        personalZeroTeam stuckWizard) = None
   \<and> endpointCalls (MultiStepSingleForm_onSubmit containsAt mockEndpoint (MultiStepSingleForm_steps Personal)
        personalZeroTeam stuckWizard) = []
   \<and> MultiStepSingleForm_completeClicked containsAt mockEndpoint stuckWizard
       = stuckWizard\<lparr>errors := zodResolver (onboardingSchema_safeParse containsAt personalZeroTeam)\<rparr>"
proof -
  have a: "onboardingSchema_safeParse containsAt personalZeroTeam \<noteq> []" by code_simp
  have b: "\<forall>step\<in>set (MultiStepSingleForm_steps Personal). \<not> array_includes (fields' step)
            (firstErrorPath (onboardingSchema_safeParse containsAt personalZeroTeam))"
    by code_simp
  show ?thesis
    using a b stuckWizard_facts
      onSubmit_unowned_issue_no_stuck_error[OF a b, of mockEndpoint stuckWizard]
    by simp
qed

subsection \<open>Submission of a valid record\<close>

text \<open>
  C8. A record that passes the full schema reaches the endpoint: \<^verbatim>\<open>onSubmit\<close> calls
  it exactly once, with that record.
\<close>

theorem onSubmit_valid_calls_endpoint_once:
  assumes "onboardingSchema_safeParse isEmail d = []"
  shows "endpointCalls (MultiStepSingleForm_onSubmit isEmail endpoint steps d st) = endpointCalls st @ [d]"
  using assms by (simp add: onSubmit_valid split: api_outcome.splits)

theorem onSubmit_valid_calls_endpoint_once_witness:
  "onboardingSchema_safeParse containsAt adaPersonal = []
   \<and> endpointCalls (MultiStepSingleForm_onSubmit containsAt mockEndpoint (MultiStepSingleForm_steps Personal)
        adaPersonal (onboardingStateAt 2 adaPersonal)) = [adaPersonal]"
proof -
  have a: "onboardingSchema_safeParse containsAt adaPersonal = []" by code_simp
  show ?thesis
    using a onSubmit_valid_calls_endpoint_once[OF a, of mockEndpoint "MultiStepSingleForm_steps Personal"
        "onboardingStateAt 2 adaPersonal"]
    by (simp add: onboardingStateAt_def)
qed

text \<open>
  The failure replies of the mock endpoint always carry a non-empty error text, which is
  then the message shown; the mock never rejects.
\<close>

lemma submitOnboarding_failure_has_error:
  "submitOnboarding random now d \<noteq> Rejected
   \<and> (submitOnboarding random now d = Resolved response \<and> \<not> success response
        \<longrightarrow> truthy_string (error response) \<and> failureMessage response = the (error response))"
  by (auto simp: submitOnboarding_def truthy_string_def failureMessage_def split: if_splits)

text \<open>
  C7. When the endpoint call fails, the form values and the draft are left as they were
  and a failure result is recorded. Its message is the error text of the reply, verbatim,
  when the reply provides one, that is a text that is present and not empty, as every
  failure reply of \<^verbatim>\<open>submitOnboarding\<close> has; otherwise it is a generic message:
  \<open>Something went wrong\<close> for a reply without an error text,
  \<open>Network error. Please try again.\<close> for a rejected call.
\<close>

theorem onSubmit_endpoint_failure_keeps_data:
  assumes "onboardingSchema_safeParse isEmail d = []"
    and "endpoint d = Rejected \<or> (\<exists>response. endpoint d = Resolved response \<and> \<not> success response)"
  shows "formValues (MultiStepSingleForm_onSubmit isEmail endpoint steps d st) = formValues st
       \<and> draft (MultiStepSingleForm_onSubmit isEmail endpoint steps d st) = draft st
       \<and> submitResult (MultiStepSingleForm_onSubmit isEmail endpoint steps d st) =
           Some \<lparr>result_success = False,
                 result_message =
                   (case endpoint d of
                      Rejected \<Rightarrow> ''Network error. Please try again.''
                    | Resolved response \<Rightarrow>
                        (case error response of
                           None \<Rightarrow> ''Something went wrong''
                         | Some e \<Rightarrow> if e = [] then ''Something went wrong'' else e))\<rparr>
       \<and> (\<forall>response e. endpoint d = Resolved response \<and> error response = Some e \<and> e \<noteq> []
            \<longrightarrow> submitResult (MultiStepSingleForm_onSubmit isEmail endpoint steps d st)
                  = Some \<lparr>result_success = False, result_message = e\<rparr>)
       \<and> (endpoint = submitOnboarding random now
            \<longrightarrow> (\<exists>response e. endpoint d = Resolved response \<and> error response = Some e
                  \<and> submitResult (MultiStepSingleForm_onSubmit isEmail endpoint steps d st)
                      = Some \<lparr>result_success = False, result_message = e\<rparr>))"
proof (intro conjI allI impI)
  show "formValues (MultiStepSingleForm_onSubmit isEmail endpoint steps d st) = formValues st"
    using assms by (auto simp: onSubmit_valid)
  show "draft (MultiStepSingleForm_onSubmit isEmail endpoint steps d st) = draft st"
    using assms by (auto simp: onSubmit_valid)
  show "submitResult (MultiStepSingleForm_onSubmit isEmail endpoint steps d st) =
           Some \<lparr>result_success = False,
                 result_message =
                   (case endpoint d of
                      Rejected \<Rightarrow> ''Network error. Please try again.''
                    | Resolved response \<Rightarrow>
                        (case error response of
                           None \<Rightarrow> ''Something went wrong''
                         | Some e \<Rightarrow> if e = [] then ''Something went wrong'' else e))\<rparr>"
    using assms
    by (auto simp: onSubmit_valid failureMessage_def truthy_string_def split: option.splits)
next
  fix response e
  assume "endpoint d = Resolved response \<and> error response = Some e \<and> e \<noteq> []"
  then show "submitResult (MultiStepSingleForm_onSubmit isEmail endpoint steps d st)
                  = Some \<lparr>result_success = False, result_message = e\<rparr>"
    using assms by (auto simp: onSubmit_valid failureMessage_def truthy_string_def)
next
  assume ep: "endpoint = submitOnboarding random now"
  from assms(2) ep submitOnboarding_failure_has_error[of random now d]
  obtain response where r: "endpoint d = Resolved response" "\<not> success response"
    by auto
  with ep submitOnboarding_failure_has_error[of random now d response]
  have t: "truthy_string (error response)" "failureMessage response = the (error response)"
    by auto
  then obtain e where e: "error response = Some e"
    by (cases "error response") (auto simp: truthy_string_def)
  have "submitResult (MultiStepSingleForm_onSubmit isEmail endpoint steps d st)
          = Some \<lparr>result_success = False, result_message = e\<rparr>"
    using assms(1) r t e by (simp add: onSubmit_valid)
  with r e show "\<exists>response e. endpoint d = Resolved response \<and> error response = Some e
                  \<and> submitResult (MultiStepSingleForm_onSubmit isEmail endpoint steps d st)
                      = Some \<lparr>result_success = False, result_message = e\<rparr>"
    by blast
qed

theorem onSubmit_endpoint_failure_keeps_data_witness:
  "onboardingSchema_safeParse containsAt takenEmail = []
   \<and> (mockEndpoint takenEmail = Rejected
        \<or> (\<exists>response. mockEndpoint takenEmail = Resolved response \<and> \<not> success response))
   \<and> mockEndpoint = submitOnboarding 0.5 ''1700000000000''
   \<and> mockEndpoint takenEmail
       = Resolved \<lparr>success = False, data = None, error = Some ''This email is already registered.''\<rparr>
   \<and> formValues (MultiStepSingleForm_onSubmit containsAt mockEndpoint (MultiStepSingleForm_steps Personal)
        takenEmail (onboardingStateAt 2 takenEmail)) = takenEmail
   \<and> draft (MultiStepSingleForm_onSubmit containsAt mockEndpoint (MultiStepSingleForm_steps Personal)
        takenEmail (onboardingStateAt 2 takenEmail)) = Some takenEmail
   \<and> submitResult (MultiStepSingleForm_onSubmit containsAt mockEndpoint (MultiStepSingleForm_steps Personal)
        takenEmail (onboardingStateAt 2 takenEmail))
      = Some \<lparr>result_success = False, result_message = ''This email is already registered.''\<rparr>"
proof -
  have a: "onboardingSchema_safeParse containsAt takenEmail = []" by code_simp
  have m: "mockEndpoint takenEmail =
       Resolved \<lparr>success = False, data = None, error = Some ''This email is already registered.''\<rparr>"
    by (simp add: mockEndpoint_def submitOnboarding_def takenEmail_def)
  have b: "mockEndpoint takenEmail = Rejected
        \<or> (\<exists>response. mockEndpoint takenEmail = Resolved response \<and> \<not> success response)"
    by (simp add: m)
  have c: "mockEndpoint = submitOnboarding 0.5 ''1700000000000''" by (simp add: mockEndpoint_def)
  show ?thesis
    using a b c onSubmit_endpoint_failure_keeps_data[of containsAt takenEmail mockEndpoint
        "MultiStepSingleForm_steps Personal" "onboardingStateAt 2 takenEmail" "0.5" "''1700000000000''"]
    by (simp add: m onboardingStateAt_def)
qed

subsection \<open>The company step schema against the domain schema\<close>

text \<open>
  The default values of the three company fields satisfy the domain schema's constraints
  on these fields, and the company step schema rejects them.
\<close>

theorem companyStepSchema_stricter_counterexample:
  "companyStepSchema_safeParse (Some '''') None (Some '''') \<noteq> []
   \<and> domainCompanyFields_valid (Some '''') None (Some '''')"
  by (simp add: companyStepSchema_safeParse_def domainCompanyFields_valid_def required_def
      optional_def string_min_def shape_companyName_def shape_teamSize_def shape_role_def)

text \<open>
  C5, as the code has it. The company step schema accepts an assignment of the three
  fields iff the assignment satisfies the domain schema's constraints on these fields and,
  beyond them, the company name and the role are present and not empty and the team size
  is present. The rules of the refinement, which read the account type, play no part.
\<close>

theorem companyStepSchema_accepts_iff:
  "(companyStepSchema_safeParse c t r = []) =
     (domainCompanyFields_valid c t r \<and> truthy_string c \<and> t \<noteq> None \<and> truthy_string r)"
  by (auto simp: companyStepSchema_safeParse_def domainCompanyFields_valid_def required_def
      optional_def string_min_def number_min_def shape_companyName_def shape_teamSize_def
      shape_role_def truthy_string_def split: option.splits)

theorem companyStepSchema_accepts_iff_witness:
  "companyStepSchema_safeParse (Some ''Acme'') (Some 5) (Some ''founder'') = []
   \<and> domainCompanyFields_valid (Some ''Acme'') (Some 5) (Some ''founder'')"
  using companyStepSchema_accepts_iff[of "Some ''Acme''" "Some 5" "Some ''founder''"]
  by (simp add: companyStepSchema_safeParse_def required_def string_min_def number_min_def)

subsection \<open>The step sequence of the conditional wizard\<close>

text \<open>
  C6. For a record whose attendance type is hybrid the sequence is: basic info,
  attendance, the in-person step, the virtual step, finish.
\<close>

theorem hybrid_steps:
  assumes "attendanceType r = Hybrid"
  shows "ConditionalStepsForm_steps (attendanceType r) =
    [\<lparr>label = ''Basic Info'', component = BasicInfoStep, fields' = [Ev_name, Ev_email]\<rparr>,
     \<lparr>label = ''Attendance'', component = AttendanceTypeStep, fields' = [Ev_attendanceType]\<rparr>,
     \<lparr>label = ''In-Person'', component = InPersonStep, fields' = [Ev_dietaryRestrictions, Ev_tshirtSize]\<rparr>,
     \<lparr>label = ''Virtual'', component = VirtualStep, fields' = [Ev_timezone, Ev_platformPreference]\<rparr>,
     \<lparr>label = ''Finish'', component = AdditionalInfoStep, fields' = [Ev_howDidYouHear]\<rparr>]"
  using assms by (simp add: ConditionalStepsForm_steps_def)

theorem hybrid_steps_witness:
  "attendanceType hybridRegistration = Hybrid
   \<and> map label (ConditionalStepsForm_steps (attendanceType hybridRegistration)) =
       [''Basic Info'', ''Attendance'', ''In-Person'', ''Virtual'', ''Finish'']"
proof -
  have a: "attendanceType hybridRegistration = Hybrid" by (simp add: hybridRegistration_def)
  show ?thesis using a hybrid_steps[OF a] by simp
qed

subsection \<open>The adjustment of the current step\<close>

lemma length_ConditionalStepsForm_steps:
  "length (ConditionalStepsForm_steps a) = (if a = Hybrid then 5 else 4)"
  by (cases a) (simp_all add: ConditionalStepsForm_steps_def)

lemma ConditionalStepsForm_adjust_eq:
  "ConditionalStepsForm_adjust st =
     st\<lparr>currentStep := min (currentStep st)
            (int (length (ConditionalStepsForm_steps (attendanceType (formValues st)))) - 1)\<rparr>"
  by (simp add: ConditionalStepsForm_adjust_def safeCurrentStep_def Let_def)

text \<open>
  C4. When the step sequence of the conditional wizard is no longer than the current
  step index, the render sets the index to the minimum of the old index and the length
  minus one, which is not negative. The adjustment is idempotent, and it runs no
  validation: no call of \<^verbatim>\<open>trigger\<close> is made, and the displayed errors and the form values
  stay as they were.
\<close>

theorem adjust_clamps_current_step:
  assumes "int (length (ConditionalStepsForm_steps (attendanceType (formValues st)))) \<le> currentStep st"
  shows "currentStep (ConditionalStepsForm_adjust st) =
           min (currentStep st) (int (length (ConditionalStepsForm_steps (attendanceType (formValues st)))) - 1)
       \<and> 0 \<le> currentStep (ConditionalStepsForm_adjust st)
       \<and> ConditionalStepsForm_adjust (ConditionalStepsForm_adjust st) = ConditionalStepsForm_adjust st
       \<and> triggerCalls (ConditionalStepsForm_adjust st) = triggerCalls st
       \<and> errors (ConditionalStepsForm_adjust st) = errors st
       \<and> formValues (ConditionalStepsForm_adjust st) = formValues st"
  using assms
  by (simp add: ConditionalStepsForm_adjust_eq length_ConditionalStepsForm_steps)

theorem adjust_clamps_current_step_witness:
  "int (length (ConditionalStepsForm_steps (attendanceType (formValues (eventStateAt 4 Virtual)))))
     \<le> currentStep (eventStateAt 4 Virtual)
   \<and> currentStep (ConditionalStepsForm_adjust (eventStateAt 4 Virtual)) = 3
   \<and> ConditionalStepsForm_adjust (ConditionalStepsForm_adjust (eventStateAt 4 Virtual))
       = ConditionalStepsForm_adjust (eventStateAt 4 Virtual)"
proof -
  have a: "int (length (ConditionalStepsForm_steps (attendanceType (formValues (eventStateAt 4 Virtual)))))
     \<le> currentStep (eventStateAt 4 Virtual)"
    by (simp add: eventStateAt_def length_ConditionalStepsForm_steps)
  show ?thesis
    using a adjust_clamps_current_step[OF a]
    by (simp add: eventStateAt_def length_ConditionalStepsForm_steps)
qed

subsection \<open>The current step stays within the step sequence\<close>

lemma validateCurrentStep_frame:
  "currentStep (snd (validateCurrentStep trigger steps st)) = currentStep st
   \<and> formValues (snd (validateCurrentStep trigger steps st)) = formValues st"
  by (simp add: validateCurrentStep_def Let_def split: option.splits prod.splits)

lemma handleNext_formValues: "formValues (handleNext trigger steps st) = formValues st"
proof -
  obtain b st1 where v: "validateCurrentStep trigger steps st = (b, st1)"
    by (cases "validateCurrentStep trigger steps st")
  with validateCurrentStep_frame[of trigger steps st] show ?thesis
    by (simp add: handleNext_def)
qed

lemma handleNext_currentStep:
  "currentStep (handleNext trigger steps st) = currentStep st
   \<or> currentStep (handleNext trigger steps st) = min (currentStep st + 1) (int (length steps) - 1)"
proof -
  obtain b st1 where v: "validateCurrentStep trigger steps st = (b, st1)"
    by (cases "validateCurrentStep trigger steps st")
  with validateCurrentStep_frame[of trigger steps st] show ?thesis
    by (simp add: handleNext_def)
qed

lemma handleNext_inBounds:
  assumes "inBounds steps (currentStep st)"
  shows "inBounds steps (currentStep (handleNext trigger steps st))"
  using assms handleNext_currentStep[of trigger steps st]
  by (auto simp: inBounds_def)

lemma handleBack_inBounds:
  assumes "inBounds steps (currentStep st)"
  shows "inBounds steps (currentStep (handleBack st))"
  using assms by (auto simp: inBounds_def handleBack_def)

lemma adjust_inBounds:
  assumes "0 \<le> currentStep st"
  shows "inBounds (ConditionalStepsForm_steps (attendanceType (formValues (ConditionalStepsForm_adjust st))))
           (currentStep (ConditionalStepsForm_adjust st))"
  using assms
  by (auto simp: ConditionalStepsForm_adjust_eq inBounds_def length_ConditionalStepsForm_steps)

lemma handle_nonneg:
  assumes "inBounds (ConditionalStepsForm_steps (attendanceType (formValues st))) (currentStep st)"
  shows "0 \<le> currentStep (ConditionalStepsForm_handle trigger ev st)"
proof (cases ev)
  case NextClicked
  then show ?thesis
    using handleNext_inBounds[OF assms, of trigger]
    by (simp add: ConditionalStepsForm_handle_def inBounds_def)
next
  case BackClicked
  then show ?thesis by (simp add: ConditionalStepsForm_handle_def handleBack_def)
next
  case ResetClicked
  then show ?thesis by (simp add: ConditionalStepsForm_handle_def ConditionalStepsForm_handleReset_def)
next
  case (AttendanceChosen a)
  then show ?thesis using assms by (simp add: ConditionalStepsForm_handle_def inBounds_def)
qed

lemma run_inBounds:
  "inBounds (ConditionalStepsForm_steps (attendanceType (formValues (ConditionalStepsForm_run trigger evs))))
     (currentStep (ConditionalStepsForm_run trigger evs))"
proof (induction evs rule: rev_induct)
  case Nil
  show ?case
    unfolding ConditionalStepsForm_run_def foldl_Nil
    by (rule adjust_inBounds) (simp add: ConditionalStepsForm_initial_def)
next
  case (snoc ev evs)
  have "ConditionalStepsForm_run trigger (evs @ [ev]) =
        ConditionalStepsForm_adjust (ConditionalStepsForm_handle trigger ev (ConditionalStepsForm_run trigger evs))"
    by (simp add: ConditionalStepsForm_run_def ConditionalStepsForm_dispatch_def)
  then show ?case
    using adjust_inBounds[OF handle_nonneg[OF snoc.IH, of trigger ev]] by simp
qed

text \<open>
  In the single-form wizard the index stays within the sequence as well: \<^verbatim>\<open>onSubmit\<close>
  only moves it to an index found in the sequence, and a new account type can only be
  chosen on the account type step, whose index lies in both sequences.
\<close>

lemma onSubmit_inBounds:
  assumes "inBounds steps (currentStep st)"
  shows "inBounds steps (currentStep (MultiStepSingleForm_onSubmit isEmail endpoint steps d st))"
proof (cases "onboardingSchema_safeParse isEmail d = []")
  case True
  then show ?thesis using assms by (simp add: onSubmit_valid split: api_outcome.splits)
next
  case False
  let ?owns = "\<lambda>step. array_includes (fields' step)
                 (firstErrorPath (onboardingSchema_safeParse isEmail d))"
  show ?thesis
  proof (cases "\<exists>step\<in>set steps. ?owns step")
    case True
    then obtain i where "i < length steps" "findIndex ?owns steps = int i"
      using findIndex_first[of steps ?owns] by blast
    then show ?thesis using False by (simp add: onSubmit_invalid inBounds_def)
  next
    case False
    then have "findIndex ?owns steps = - 1" by (simp add: findIndex_none)
    then show ?thesis
      using \<open>onboardingSchema_safeParse isEmail d \<noteq> []\<close> assms by (simp add: onSubmit_invalid)
  qed
qed

lemma account_type_change_inBounds:
  assumes "array_get (MultiStepSingleForm_steps a) i = Some cfg" "component cfg = AccountTypeStep"
  shows "inBounds (MultiStepSingleForm_steps a') i"
proof -
  from assms(1) have r: "0 \<le> i" "i < int (length (MultiStepSingleForm_steps a))"
      "cfg = MultiStepSingleForm_steps a ! nat i"
    by (auto simp: array_get_def split: if_splits)
  have "nat i = 2"
  proof (cases a)
    case Personal
    with r have "nat i < 3" by (simp add: MultiStepSingleForm_steps_def)
    then have "nat i = 0 \<or> nat i = 1 \<or> nat i = 2" by arith
    with assms(2) r(3) Personal show ?thesis
      by (auto simp: MultiStepSingleForm_steps_def)
  next
    case Business
    with r have "nat i < 4" by (simp add: MultiStepSingleForm_steps_def)
    then have "nat i = 0 \<or> nat i = 1 \<or> nat i = 2 \<or> nat i = 3" by arith
    with assms(2) r(3) Business show ?thesis
      by (auto simp: MultiStepSingleForm_steps_def)
  qed
  with r(1) have "i = 2" by simp
  then show ?thesis
    by (cases a') (simp_all add: inBounds_def MultiStepSingleForm_steps_def)
qed

text \<open>
  C10. The current step index of the conditional wizard is within the bounds of its step
  sequence after every sequence of events from the initial state. Taken one by one: on any
  sequence in whose bounds the index lies, \<^verbatim>\<open>handleNext\<close> (which adds at most one) and
  \<^verbatim>\<open>handleBack\<close> keep it there; both resets put it at 0, within the bounds of the
  sequence of the default values; and the adjustment made while rendering puts any
  non-negative index within the bounds of the current sequence.
\<close>

theorem currentStep_always_inBounds:
  "inBounds (ConditionalStepsForm_steps (attendanceType (formValues (ConditionalStepsForm_run trigger evs))))
     (currentStep (ConditionalStepsForm_run trigger evs))
   \<and> (inBounds steps (currentStep st)
        \<longrightarrow> inBounds steps (currentStep (handleNext trigger' steps st))
          \<and> currentStep (handleNext trigger' steps st) \<le> currentStep st + 1
          \<and> inBounds steps (currentStep (handleBack st)))
   \<and> inBounds (ConditionalStepsForm_steps (attendanceType (formValues (ConditionalStepsForm_handleReset est))))
        (currentStep (ConditionalStepsForm_handleReset est))
   \<and> inBounds (MultiStepSingleForm_steps (accountType (formValues (MultiStepSingleForm_handleReset ost))))
        (currentStep (MultiStepSingleForm_handleReset ost))
   \<and> (0 \<le> currentStep est
        \<longrightarrow> inBounds (ConditionalStepsForm_steps (attendanceType (formValues (ConditionalStepsForm_adjust est))))
             (currentStep (ConditionalStepsForm_adjust est)))"
proof (intro conjI impI)
  show "inBounds (ConditionalStepsForm_steps (attendanceType (formValues (ConditionalStepsForm_run trigger evs))))
     (currentStep (ConditionalStepsForm_run trigger evs))"
    by (rule run_inBounds)
next
  assume b: "inBounds steps (currentStep st)"
  show "inBounds steps (currentStep (handleNext trigger' steps st))"
    by (rule handleNext_inBounds[OF b])
  show "currentStep (handleNext trigger' steps st) \<le> currentStep st + 1"
    using handleNext_currentStep[of trigger' steps st] by auto
  show "inBounds steps (currentStep (handleBack st))"
    by (rule handleBack_inBounds[OF b])
next
  show "inBounds (ConditionalStepsForm_steps (attendanceType (formValues (ConditionalStepsForm_handleReset est))))
        (currentStep (ConditionalStepsForm_handleReset est))"
    by (simp add: ConditionalStepsForm_handleReset_def inBounds_def length_ConditionalStepsForm_steps)
  show "inBounds (MultiStepSingleForm_steps (accountType (formValues (MultiStepSingleForm_handleReset ost))))
        (currentStep (MultiStepSingleForm_handleReset ost))"
    by (simp add: MultiStepSingleForm_handleReset_def inBounds_def MultiStepSingleForm_steps_def
        defaultOnboardingValues_def)
next
  assume "0 \<le> currentStep est"
  then show "inBounds (ConditionalStepsForm_steps (attendanceType (formValues (ConditionalStepsForm_adjust est))))
             (currentStep (ConditionalStepsForm_adjust est))"
    by (rule adjust_inBounds)
qed

theorem currentStep_always_inBounds_witness:
  "inBounds (ConditionalStepsForm_steps Hybrid) (currentStep (eventStateAt 1 Hybrid))
   \<and> 0 \<le> currentStep (eventStateAt 4 Virtual)
   \<and> currentStep (handleNext (acceptingTrigger) (ConditionalStepsForm_steps Hybrid)
        (eventStateAt 1 Hybrid)) = 2
   \<and> currentStep (handleBack (eventStateAt 1 Hybrid)) = 0
   \<and> currentStep (ConditionalStepsForm_adjust (eventStateAt 4 Virtual)) = 3
   \<and> currentStep (ConditionalStepsForm_run (acceptingTrigger)
        [NextClicked, AttendanceChosen Hybrid, NextClicked, NextClicked, NextClicked,
         AttendanceChosen Virtual]) = 3
   \<and> inBounds (ConditionalStepsForm_steps Virtual) 3"
proof -
  have a: "inBounds (ConditionalStepsForm_steps Hybrid) (currentStep (eventStateAt 1 Hybrid))"
    by code_simp
  have b: "0 \<le> currentStep (eventStateAt 4 Virtual)" by code_simp
  have c: "currentStep (handleNext (acceptingTrigger) (ConditionalStepsForm_steps Hybrid)
        (eventStateAt 1 Hybrid)) = 2" by code_simp
  have d: "currentStep (handleBack (eventStateAt 1 Hybrid)) = 0" by code_simp
  have e: "currentStep (ConditionalStepsForm_adjust (eventStateAt 4 Virtual)) = 3" by code_simp
  have f: "currentStep (ConditionalStepsForm_run (acceptingTrigger)
        [NextClicked, AttendanceChosen Hybrid, NextClicked, NextClicked, NextClicked,
         AttendanceChosen Virtual]) = 3" by code_simp
  have g: "attendanceType (formValues (ConditionalStepsForm_adjust (eventStateAt 4 Virtual))) = Virtual"
    by code_simp
  show ?thesis
    using a b c d e f g
      currentStep_always_inBounds[of "acceptingTrigger" "[]" "ConditionalStepsForm_steps Hybrid"
        "eventStateAt 1 Hybrid" "acceptingTrigger" "eventStateAt 4 Virtual"]
    by simp
qed

subsection \<open>Step validation is confined to the named fields\<close>

lemma zodResolver_None: "(zodResolver issues f = None) = (\<not> (\<exists>i\<in>set issues. path i = [f]))"
  by (auto simp: zodResolver_def find_None_iff)

lemma requestValidation_fst:
  "fst (requestValidation schema F values errs)
     = (\<not> (\<exists>f\<in>set F. \<exists>i\<in>set (schema values). path i = [f]))"
  by (auto simp: requestValidation_def Let_def list_all_iff zodResolver_None)

lemma requestValidation_snd:
  "f \<notin> set F \<Longrightarrow> snd (requestValidation schema F values errs) f = errs f"
  by (simp add: requestValidation_def Let_def)

text \<open>
  C3. For every list of field names \<open>F\<close>, \<^verbatim>\<open>requestValidation\<close> returns true iff the
  parse of the current values has no issue at a field of \<open>F\<close>, and the displayed error of
  every field outside \<open>F\<close> is as before the call. The same holds of
  \<^verbatim>\<open>validateCurrentStep\<close>, where \<open>F\<close> is the field list of the current step.
\<close>

theorem requestValidation_scoped:
  "fst (requestValidation schema F values errs)
     = (\<not> (\<exists>f\<in>set F. \<exists>i\<in>set (schema values). path i = [f]))
   \<and> (\<forall>f. f \<notin> set F \<longrightarrow> snd (requestValidation schema F values errs) f = errs f)
   \<and> (array_get steps (currentStep st) = Some cfg \<longrightarrow>
        fst (validateCurrentStep (requestValidation schema) steps st)
          = (\<not> (\<exists>f\<in>set (fields' cfg). \<exists>i\<in>set (schema (formValues st)). path i = [f]))
        \<and> (\<forall>f. f \<notin> set (fields' cfg) \<longrightarrow>
              errors (snd (validateCurrentStep (requestValidation schema) steps st)) f = errors st f))"
proof (intro conjI impI allI)
  show "fst (requestValidation schema F values errs)
     = (\<not> (\<exists>f\<in>set F. \<exists>i\<in>set (schema values). path i = [f]))"
    by (rule requestValidation_fst)
next
  fix f assume "f \<notin> set F"
  then show "snd (requestValidation schema F values errs) f = errs f"
    by (rule requestValidation_snd)
next
  assume c: "array_get steps (currentStep st) = Some cfg"
  obtain b errs' where r: "requestValidation schema (fields' cfg) (formValues st) (errors st) = (b, errs')"
    by (cases "requestValidation schema (fields' cfg) (formValues st) (errors st)")
  have v: "validateCurrentStep (requestValidation schema) steps st
        = (b, st\<lparr>errors := errs', triggerCalls := triggerCalls st @ [fields' cfg]\<rparr>)"
    by (simp add: validateCurrentStep_def c r)
  show "fst (validateCurrentStep (requestValidation schema) steps st)
          = (\<not> (\<exists>f\<in>set (fields' cfg). \<exists>i\<in>set (schema (formValues st)). path i = [f]))"
    using requestValidation_fst[of schema "fields' cfg" "formValues st" "errors st"]
    by (simp add: v r)
  fix f assume "f \<notin> set (fields' cfg)"
  then show "errors (snd (validateCurrentStep (requestValidation schema) steps st)) f = errors st f"
    using requestValidation_snd[of f "fields' cfg" schema "formValues st" "errors st"]
    by (simp add: v r)
qed

theorem requestValidation_scoped_witness:
  "array_get (MultiStepSingleForm_steps Personal) (currentStep (onboardingStateAt 0 defaultOnboardingValues))
     = Some \<lparr>label = ''Account'', component = AccountStep, fields' = [Email, Password, ConfirmPassword]\<rparr>
   \<and> FirstName \<notin> set [Email, Password, ConfirmPassword]
   \<and> (\<exists>i\<in>set (onboardingSchema_safeParse containsAt defaultOnboardingValues). path i = [FirstName])
   \<and> \<not> fst (validateCurrentStep (requestValidation (onboardingSchema_safeParse containsAt))
               (MultiStepSingleForm_steps Personal) (onboardingStateAt 0 defaultOnboardingValues))
   \<and> errors (snd (validateCurrentStep (requestValidation (onboardingSchema_safeParse containsAt))
               (MultiStepSingleForm_steps Personal) (onboardingStateAt 0 defaultOnboardingValues))) FirstName
       = None
   \<and> fst (validateCurrentStep (requestValidation (onboardingSchema_safeParse containsAt))
               (MultiStepSingleForm_steps Personal) (onboardingStateAt 0 adaPersonal))"
proof -
  let ?cfg = "\<lparr>label = ''Account'', component = AccountStep, fields' = [Email, Password, ConfirmPassword]\<rparr>"
  have a: "array_get (MultiStepSingleForm_steps Personal) (currentStep (onboardingStateAt 0 defaultOnboardingValues))
     = Some ?cfg"
    by (simp add: array_get_def MultiStepSingleForm_steps_def onboardingStateAt_def)
  have a': "array_get (MultiStepSingleForm_steps Personal) (currentStep (onboardingStateAt 0 adaPersonal))
     = Some ?cfg"
    by (simp add: array_get_def MultiStepSingleForm_steps_def onboardingStateAt_def)
  have b: "\<exists>i\<in>set (onboardingSchema_safeParse containsAt defaultOnboardingValues). path i = [FirstName]"
    by code_simp
  have c: "\<exists>f\<in>set [Email, Password, ConfirmPassword].
             \<exists>i\<in>set (onboardingSchema_safeParse containsAt defaultOnboardingValues). path i = [f]"
    by code_simp
  have d: "\<not> (\<exists>f\<in>set [Email, Password, ConfirmPassword].
             \<exists>i\<in>set (onboardingSchema_safeParse containsAt adaPersonal). path i = [f])"
    by code_simp
  have e: "errors (onboardingStateAt 0 defaultOnboardingValues) FirstName = None"
    by (simp add: onboardingStateAt_def)
  have fv: "formValues (onboardingStateAt 0 defaultOnboardingValues) = defaultOnboardingValues"
     "formValues (onboardingStateAt 0 adaPersonal) = adaPersonal"
    by (simp_all add: onboardingStateAt_def)
  show ?thesis
    using a b c d e
      requestValidation_scoped[of "onboardingSchema_safeParse containsAt" "[]" defaultOnboardingValues
        Map.empty "MultiStepSingleForm_steps Personal" "onboardingStateAt 0 defaultOnboardingValues" ?cfg]
      requestValidation_scoped[of "onboardingSchema_safeParse containsAt" "[]" defaultOnboardingValues
        Map.empty "MultiStepSingleForm_steps Personal" "onboardingStateAt 0 adaPersonal" ?cfg]
    by (simp add: a' fv)
qed

subsection \<open>Errors appear after the first blur\<close>

lemma fieldEvents_changes_only:
  assumes "\<not> touched fs" "shownError fs = None" "Blur \<notin> set evs"
  shows "\<not> touched (fieldEvents onTouchedThenChange validate fs evs)
       \<and> shownError (fieldEvents onTouchedThenChange validate fs evs) = None"
  using assms
proof (induction evs rule: rev_induct)
  case Nil
  then show ?case by (simp add: fieldEvents_def)
next
  case (snoc ev evs)
  then obtain v where ev: "ev = Change v" by (cases ev) auto
  from snoc have IH: "\<not> touched (fieldEvents onTouchedThenChange validate fs evs)"
      "shownError (fieldEvents onTouchedThenChange validate fs evs) = None" by auto
  show ?case
    using IH by (simp add: fieldEvents_def ev fieldEvent_def revalidates_def)
qed

lemma fieldEvent_Blur:
  "fieldEvent onTouchedThenChange validate fs Blur
     = fs\<lparr>touched := True, shownError := validate (fieldValue fs)\<rparr>"
  by (simp add: fieldEvent_def revalidates_def)

lemma fieldEvent_Change_touched:
  "touched fs \<Longrightarrow>
   fieldEvent onTouchedThenChange validate fs (Change v)
     = fs\<lparr>fieldValue := v, shownError := validate v\<rparr>"
  by (simp add: fieldEvent_def revalidates_def)

lemma fieldEvents_after_blur:
  assumes "Blur \<in> set evs"
  shows "touched (fieldEvents onTouchedThenChange validate fs evs)
       \<and> shownError (fieldEvents onTouchedThenChange validate fs evs)
           = validate (fieldValue (fieldEvents onTouchedThenChange validate fs evs))"
  using assms
proof (induction evs rule: rev_induct)
  case Nil
  then show ?case by simp
next
  case (snoc ev evs)
  let ?s = "fieldEvents onTouchedThenChange validate fs evs"
  have step: "fieldEvents onTouchedThenChange validate fs (evs @ [e])
                = fieldEvent onTouchedThenChange validate ?s e" for e
    by (simp add: fieldEvents_def)
  show ?case
  proof (cases ev)
    case Blur
    show ?thesis by (simp add: step Blur fieldEvent_Blur)
  next
    case (Change v)
    with snoc.prems have "Blur \<in> set evs" by simp
    with snoc.IH have "touched ?s" by simp
    then show ?thesis by (simp add: step Change fieldEvent_Change_touched)
  qed
qed

text \<open>
  C9. Under \<^verbatim>\<open>onTouchedThenChange\<close>: a field that has not been touched and shows no
  error still shows none after any number of changes of its value, valid or not. Once
  the field has lost focus, the error shown is the error of its current value after
  every further event: the blur itself shows the error of an invalid value, a later change
  to an invalid value shows its error, and a later change to a valid value clears the
  error, with no further blur.
\<close>

theorem onTouchedThenChange_timing:
  "(\<not> touched fs \<and> shownError fs = None \<and> Blur \<notin> set evs
      \<longrightarrow> shownError (fieldEvents onTouchedThenChange validate fs evs) = None)
   \<and> (Blur \<in> set evs
      \<longrightarrow> touched (fieldEvents onTouchedThenChange validate fs evs)
        \<and> shownError (fieldEvents onTouchedThenChange validate fs evs)
            = validate (fieldValue (fieldEvents onTouchedThenChange validate fs evs)))
   \<and> shownError (fieldEvent onTouchedThenChange validate fs Blur) = validate (fieldValue fs)
   \<and> touched (fieldEvent onTouchedThenChange validate fs Blur)
   \<and> (touched fs
      \<longrightarrow> shownError (fieldEvent onTouchedThenChange validate fs (Change v)) = validate v
        \<and> fieldValue (fieldEvent onTouchedThenChange validate fs (Change v)) = v
        \<and> touched (fieldEvent onTouchedThenChange validate fs (Change v)))"
proof (intro conjI impI)
  assume "\<not> touched fs \<and> shownError fs = None \<and> Blur \<notin> set evs"
  then show "shownError (fieldEvents onTouchedThenChange validate fs evs) = None"
    using fieldEvents_changes_only[of fs evs validate] by simp
next
  assume b: "Blur \<in> set evs"
  show "touched (fieldEvents onTouchedThenChange validate fs evs)"
    using fieldEvents_after_blur[OF b, of validate fs] by simp
  show "shownError (fieldEvents onTouchedThenChange validate fs evs)
            = validate (fieldValue (fieldEvents onTouchedThenChange validate fs evs))"
    using fieldEvents_after_blur[OF b, of validate fs] by simp
next
  show "shownError (fieldEvent onTouchedThenChange validate fs Blur) = validate (fieldValue fs)"
    by (simp add: fieldEvent_Blur)
  show "touched (fieldEvent onTouchedThenChange validate fs Blur)"
    by (simp add: fieldEvent_Blur)
next
  assume t: "touched fs"
  show "shownError (fieldEvent onTouchedThenChange validate fs (Change v)) = validate v"
    by (simp add: fieldEvent_Change_touched[OF t])
  show "fieldValue (fieldEvent onTouchedThenChange validate fs (Change v)) = v"
    by (simp add: fieldEvent_Change_touched[OF t])
  show "touched (fieldEvent onTouchedThenChange validate fs (Change v))"
    using t by (simp add: fieldEvent_Change_touched[OF t])
qed

theorem onTouchedThenChange_timing_witness:
  "\<not> touched freshField \<and> shownError freshField = None
   \<and> Blur \<notin> set [Change ''A'', Change '''']
   \<and> firstNameError '''' = Some ''First name is required''
   \<and> firstNameError ''Ada'' = None
   \<and> shownError (fieldEvents onTouchedThenChange firstNameError freshField
        [Change ''A'', Change '''']) = None
   \<and> shownError (fieldEvents onTouchedThenChange firstNameError freshField
        [Change ''A'', Change '''', Blur]) = Some ''First name is required''
   \<and> shownError (fieldEvents onTouchedThenChange firstNameError freshField
        [Change ''A'', Change '''', Blur, Change ''Ada'']) = None
   \<and> shownError (fieldEvents onTouchedThenChange firstNameError freshField
        [Change ''A'', Change '''', Blur, Change ''Ada'', Change '''']) = Some ''First name is required''
   \<and> shownError (fieldEvents onTouchedThenChange firstNameError freshField
        [Change ''Ada'', Blur, Change '''']) = Some ''First name is required''"
proof -
  let ?run = "fieldEvents onTouchedThenChange firstNameError freshField"
  have a: "\<not> touched freshField \<and> shownError freshField = None \<and> Blur \<notin> set [Change ''A'', Change '''']"
    by (simp add: freshField_def)
  have b: "firstNameError '''' = Some ''First name is required''" by code_simp
  have c: "firstNameError ''Ada'' = None" by code_simp
  have v2: "fieldValue (?run [Change ''A'', Change '''', Blur]) = ''''" by code_simp
  have v3: "fieldValue (?run [Change ''A'', Change '''', Blur, Change ''Ada'']) = ''Ada''" by code_simp
  have v4: "fieldValue (?run [Change ''A'', Change '''', Blur, Change ''Ada'', Change '''']) = ''''"
    by code_simp
  have v5: "fieldValue (?run [Change ''Ada'', Blur, Change '''']) = ''''" by code_simp
  have s1: "shownError (?run [Change ''A'', Change '''']) = None"
    using a onTouchedThenChange_timing[of freshField "[Change ''A'', Change '''']" firstNameError] by blast
  have s2: "shownError (?run [Change ''A'', Change '''', Blur]) = Some ''First name is required''"
    using onTouchedThenChange_timing[of freshField "[Change ''A'', Change '''', Blur]" firstNameError]
    by (simp add: v2 b)
  have s3: "shownError (?run [Change ''A'', Change '''', Blur, Change ''Ada'']) = None"
    using onTouchedThenChange_timing[of freshField "[Change ''A'', Change '''', Blur, Change ''Ada'']"
        firstNameError]
    by (simp add: v3 c)
  have s4: "shownError (?run [Change ''A'', Change '''', Blur, Change ''Ada'', Change ''''])
        = Some ''First name is required''"
    using onTouchedThenChange_timing[of freshField
        "[Change ''A'', Change '''', Blur, Change ''Ada'', Change '''']" firstNameError]
    by (simp add: v4 b)
  have s5: "shownError (?run [Change ''Ada'', Blur, Change '''']) = Some ''First name is required''"
    using onTouchedThenChange_timing[of freshField "[Change ''Ada'', Blur, Change '''']" firstNameError]
    by (simp add: v5 b)
  show ?thesis using a b c s1 s2 s3 s4 s5 by simp
qed

end
